theory Spec2Isabelle
  imports Complex_Main "HOL-Library.Word"
begin

unbundle bit_operations_syntax

section \<open>The class \<open>HelloClass\<close> of \<open>examples/HelloWorld/HelloWorld.cpp\<close>\<close>

text \<open>
  The source declares one class with three public fields, one private field, three
  constructors, an empty destructor, two virtual methods and a static method; every
  method writes to \<open>std::cout\<close>.

  \<^item> \<open>int64_t\<close> and \<open>int32_t\<close> are \<open>64 word\<close> and \<open>32 word\<close>, read as two's
    complement by \<open>sint\<close>.
  \<^item> \<open>double\<close> is the 64 bits of its IEEE 754 binary64 encoding: bit 63 the sign, bits
    62 to 52 the biased exponent, bits 51 to 0 the fraction.
  \<^item> \<open>std::cout\<close> is the list of characters written to it so far. No statement of the
    source changes the stream's formatting state, so the stream keeps the state it has
    at program start: decimal integers, \<open>%g\<close> floating point with precision 6, the
    classic locale.
\<close>

type_synonym int64_t = "64 word"
type_synonym int32_t = "32 word"
type_synonym double = "64 word"
type_synonym ostream = string

record HelloClass =
  one :: int64_t
  two :: int32_t
  three :: double
  thisIsPrivate :: int32_t

subsection \<open>Values of type \<open>double\<close>\<close>

definition double_sign :: "double \<Rightarrow> bool" where
  "double_sign d = bit d 63"

definition double_exponent :: "double \<Rightarrow> nat" where
  "double_exponent d = unat (drop_bit 52 d AND 0x7FF)"

definition double_fraction :: "double \<Rightarrow> nat" where
  "double_fraction d = unat (d AND 0xFFFFFFFFFFFFF)"

text \<open>
  The magnitude of a finite double as an exact fraction \<open>(num, den)\<close>; \<open>None\<close> for an
  infinity or a NaN (biased exponent 2047). Biased exponent 0 holds zero and the
  subnormal numbers.
\<close>

definition double_magnitude :: "double \<Rightarrow> (nat \<times> nat) option" where
  "double_magnitude d =
     (let e = double_exponent d; f = double_fraction d
      in if e = 2047 then None
         else if e = 0 then Some (f, 2 ^ 1074)
         else if 1075 \<le> e then Some ((2 ^ 52 + f) * 2 ^ (e - 1075), 1)
         else Some (2 ^ 52 + f, 2 ^ (1075 - e)))"

definition double_value :: "double \<Rightarrow> rat option" where
  "double_value d =
     (case double_magnitude d of
        None \<Rightarrow> None
      | Some (n, m) \<Rightarrow>
          Some ((if double_sign d then - 1 else 1) * (of_nat n / of_nat m)))"

text \<open>
  The conversion of an \<open>int\<close> to \<open>double\<close>, as in the source's \<open>this->three = 3\<close>.
  Every 32-bit integer is representable exactly: the leading bit of the magnitude becomes
  the implicit bit, the bits below it the top of the fraction.
\<close>

function msb_index :: "nat \<Rightarrow> nat" where
  "msb_index m = (if m < 2 then 0 else Suc (msb_index (m div 2)))"
  by pat_completeness auto
termination
  by (relation "measure (\<lambda>m. m)") auto

declare msb_index.simps [simp del]

definition double_of_int :: "int32_t \<Rightarrow> double" where
  "double_of_int i =
     (let v = sint i; m = nat \<bar>v\<bar>; k = msb_index m
      in if v = 0 then 0
         else (if v < 0 then push_bit 63 1 else 0)
              OR push_bit 52 (of_nat (1023 + k))
              OR (of_nat (m * 2 ^ (52 - k)) AND 0xFFFFFFFFFFFFF))"

subsection \<open>The inserters of \<open>std::ostream\<close> that the methods call\<close>

text \<open>The decimal digits of a number; \<open>digit_char\<close> is only applied below 10.\<close>

definition digit_char :: "nat \<Rightarrow> char" where
  "digit_char d = ''0123456789'' ! d"

function digits10 :: "nat \<Rightarrow> string" where
  "digits10 n =
     (if n < 10 then [digit_char n] else digits10 (n div 10) @ [digit_char (n mod 10)])"
  by pat_completeness auto
termination
  by (relation "measure (\<lambda>n. n)") auto

declare digits10.simps [simp del]

text \<open>\<open>operator<<\<close> for a signed integer, with the stream's default flags: \<open>%d\<close>.\<close>

definition show_int :: "int \<Rightarrow> string" where
  "show_int i = (if i < 0 then CHR ''-'' # digits10 (nat (- i)) else digits10 (nat i))"

text \<open>
  \<open>operator<<\<close> for a \<open>double\<close>, with the stream's default flags, is \<open>printf\<close>'s
  \<open>%g\<close> with precision \<open>P = 6\<close> (ISO C, 7.21.6.1): let \<open>X\<close> be the decimal exponent of
  the value rounded to \<open>P\<close> significant digits; if \<open>P > X \<ge> -4\<close> the value is written in
  fixed notation with \<open>P - 1 - X\<close> fraction digits, otherwise in exponent notation with
  \<open>P - 1\<close> fraction digits and an exponent of at least two digits; trailing zeros of the
  fraction are removed, and the decimal point with them when no fraction digit remains.
  The value is rounded to nearest, ties to even, from its exact binary value.
\<close>

function dexp_up :: "nat \<Rightarrow> nat \<Rightarrow> nat" where
  "dexp_up num den =
     (if den = 0 \<or> num < 10 * den then 0 else Suc (dexp_up num (10 * den)))"
  by pat_completeness auto
termination
proof (relation "measure (\<lambda>(num, den). num - den)")
  show "wf (measure (\<lambda>(num, den). num - den))" by simp
next
  fix num den :: nat
  assume "\<not> (den = 0 \<or> num < 10 * den)"
  then have "0 < den" "10 * den \<le> num" by simp_all
  then have "num - 10 * den < num - den" by arith
  then show "((num, 10 * den), num, den) \<in> measure (\<lambda>(num, den). num - den)" by simp
qed

function dexp_down :: "nat \<Rightarrow> nat \<Rightarrow> nat" where
  "dexp_down num den =
     (if num = 0 \<or> den \<le> num then 0 else Suc (dexp_down (10 * num) den))"
  by pat_completeness auto
termination
proof (relation "measure (\<lambda>(num, den). den - num)")
  show "wf (measure (\<lambda>(num, den). den - num))" by simp
next
  fix num den :: nat
  assume "\<not> (num = 0 \<or> den \<le> num)"
  then have "0 < num" "num < den" by simp_all
  then have "den - 10 * num < den - num" by arith
  then show "((10 * num, den), num, den) \<in> measure (\<lambda>(num, den). den - num)" by simp
qed

declare dexp_up.simps [simp del] dexp_down.simps [simp del]

text \<open>The decimal exponent \<open>x\<close> of a positive fraction: \<open>10 ^ x \<le> num / den < 10 ^ (x + 1)\<close>.\<close>

definition dexp :: "nat \<Rightarrow> nat \<Rightarrow> int" where
  "dexp num den = (if den \<le> num then int (dexp_up num den) else - int (dexp_down num den))"

definition round_half_even :: "nat \<Rightarrow> nat \<Rightarrow> nat" where
  "round_half_even n d =
     (let q = n div d; r = n mod d
      in if d < 2 * r \<or> (2 * r = d \<and> odd q) then q + 1 else q)"

definition strip_zeros :: "string \<Rightarrow> string" where
  "strip_zeros s = rev (dropWhile (\<lambda>c. c = CHR ''0'') (rev s))"

definition with_point :: "string \<Rightarrow> string \<Rightarrow> string" where
  "with_point ip fr = (if fr = [] then ip else ip @ CHR ''.'' # fr)"

definition show_exponent :: "int \<Rightarrow> string" where
  "show_exponent x =
     (if x < 0 then CHR ''-'' else CHR ''+'') #
     (if \<bar>x\<bar> < 10 then ''0'' else []) @ digits10 (nat \<bar>x\<bar>)"

definition show_g :: "nat \<Rightarrow> nat \<Rightarrow> string" where
  "show_g num den =
     (if num = 0 then ''0''
      else
        let x0 = dexp num den;
            q0 = (if x0 \<le> 5 then round_half_even (num * 10 ^ nat (5 - x0)) den
                  else round_half_even num (den * 10 ^ nat (x0 - 5)));
            x = (if q0 = 1000000 then x0 + 1 else x0);
            ds = digits10 (if q0 = 1000000 then 100000 else q0)
        in if x < - 4 \<or> 6 \<le> x then
             with_point (take 1 ds) (strip_zeros (drop 1 ds)) @ CHR ''e'' # show_exponent x
           else if 0 \<le> x then
             with_point (take (nat x + 1) ds) (strip_zeros (drop (nat x + 1) ds))
           else
             ''0.'' @ replicate (nat (- x - 1)) (CHR ''0'') @ strip_zeros ds)"

definition show_double :: "double \<Rightarrow> string" where
  "show_double d =
     (if double_sign d then ''-'' else []) @
     (case double_magnitude d of
        None \<Rightarrow> (if double_fraction d = 0 then ''inf'' else ''nan'')
      | Some (num, den) \<Rightarrow> show_g num den)"

definition put_str :: "string \<Rightarrow> ostream \<Rightarrow> ostream" where
  "put_str s os = os @ s"

definition put_int :: "int \<Rightarrow> ostream \<Rightarrow> ostream" where
  "put_int i os = os @ show_int i"

definition put_double :: "double \<Rightarrow> ostream \<Rightarrow> ostream" where
  "put_double d os = os @ show_double d"

text \<open>\<open>std::endl\<close> writes a newline and flushes; flushing writes no character.\<close>

definition endl :: "ostream \<Rightarrow> ostream" where
  "endl os = os @ [CHR 0x0A]"

text \<open>
  \<open>operator<<\<close> for a \<open>const char*\<close> writes the characters before the first NUL.
  The pointer is \<open>None\<close> when null, and otherwise \<open>Some bs\<close>, the bytes of the array
  from the position it points to up to the array's end. The inserter requires a non-null
  pointer, and reading an array that holds no NUL runs past its end: both are undefined
  behaviour, and errors here.
\<close>

datatype error = NullPointer | UnterminatedString

definition put_cstr :: "char list option \<Rightarrow> ostream \<Rightarrow> error + ostream" where
  "put_cstr p os =
     (case p of
        None \<Rightarrow> Inl NullPointer
      | Some bs \<Rightarrow>
          if CHR 0x00 \<in> set bs then Inr (os @ takeWhile (\<lambda>c. c \<noteq> CHR 0x00) bs)
          else Inl UnterminatedString)"

subsection \<open>Constructors and destructor\<close>

text \<open>
  A constructor runs on the storage of the object it creates: its first argument is what
  that storage holds before, and a field the constructor does not assign keeps it (zeros
  for an object of static storage duration, an indeterminate value otherwise).
  The constructors are overloaded in the source and told apart here by their arity.
\<close>

definition HelloClass_ctor0 :: "HelloClass \<Rightarrow> HelloClass" where
  "HelloClass_ctor0 this =
     this\<lparr>one := 1, two := 2, three := double_of_int 3, thisIsPrivate := 4\<rparr>"

definition HelloClass_ctor2 :: "HelloClass \<Rightarrow> int64_t \<Rightarrow> int32_t \<Rightarrow> HelloClass" where
  "HelloClass_ctor2 this a b = this\<lparr>one := a, two := b\<rparr>"

definition HelloClass_ctor3 ::
  "HelloClass \<Rightarrow> int64_t \<Rightarrow> int32_t \<Rightarrow> double \<Rightarrow> HelloClass" where
  "HelloClass_ctor3 this a b c = this\<lparr>one := a, two := b, three := c\<rparr>"

text \<open>
  The destructor and the methods are not \<open>const\<close>: each takes the object and the
  stream and returns both.
\<close>

definition HelloClass_dtor :: "HelloClass \<Rightarrow> ostream \<Rightarrow> HelloClass \<times> ostream" where
  "HelloClass_dtor this cout = (this, cout)"

subsection \<open>Methods\<close>

definition SayHello :: "HelloClass \<Rightarrow> ostream \<Rightarrow> HelloClass \<times> ostream" where
  "SayHello this cout =
     (let cout = put_str (''Hello, from HelloClass with'' @ CHR 0x0A # ''one: '') cout;
          cout = put_int (sint (one this)) cout;
          cout = put_str '', two: '' cout;
          cout = put_int (sint (two this)) cout;
          cout = put_str '', and three: '' cout;
          cout = put_double (three this) cout;
          cout = endl cout
      in (this, cout))"

definition Say ::
  "HelloClass \<Rightarrow> char list option \<Rightarrow> ostream \<Rightarrow> error + HelloClass \<times> ostream" where
  "Say this val cout =
     (case put_cstr val cout of
        Inl e \<Rightarrow> Inl e
      | Inr cout \<Rightarrow> Inr (this, endl cout))"

text \<open>The static method has no \<open>this\<close>: it takes the stream alone.\<close>

definition StaticHello :: "ostream \<Rightarrow> ostream" where
  "StaticHello cout = endl (put_str ''Hello, from HelloClass::StaticHello!'' cout)"

subsection \<open>Calls on one object\<close>

text \<open>
  What a client of the class can do with one object and the stream: construct it in its
  storage with one of the three constructors, destroy it, and call the three methods.
  A run of calls stops at the first error.
\<close>

datatype call =
    New0
  | New2 int64_t int32_t
  | New3 int64_t int32_t double
  | Delete
  | CallSayHello
  | CallSay "char list option"
  | CallStaticHello

fun exec :: "call \<Rightarrow> HelloClass \<times> ostream \<Rightarrow> error + HelloClass \<times> ostream" where
  "exec New0 (this, cout) = Inr (HelloClass_ctor0 this, cout)"
| "exec (New2 a b) (this, cout) = Inr (HelloClass_ctor2 this a b, cout)"
| "exec (New3 a b c) (this, cout) = Inr (HelloClass_ctor3 this a b c, cout)"
| "exec Delete (this, cout) = Inr (HelloClass_dtor this cout)"
| "exec CallSayHello (this, cout) = Inr (SayHello this cout)"
| "exec (CallSay val) (this, cout) = Say this val cout"
| "exec CallStaticHello (this, cout) = Inr (this, StaticHello cout)"

fun run :: "call list \<Rightarrow> HelloClass \<times> ostream \<Rightarrow> error + HelloClass \<times> ostream" where
  "run [] s = Inr s"
| "run (c # cs) s = (case exec c s of Inl e \<Rightarrow> Inl e | Inr s' \<Rightarrow> run cs s')"

text \<open>A valid text reference: a non-null pointer to a NUL-terminated array.\<close>

definition valid_cstr :: "char list option \<Rightarrow> bool" where
  "valid_cstr p = (case p of None \<Rightarrow> False | Some bs \<Rightarrow> CHR 0x00 \<in> set bs)"

fun valid_call :: "call \<Rightarrow> bool" where
  "valid_call (CallSay val) = valid_cstr val"
| "valid_call _ = True"

fun is_method :: "call \<Rightarrow> bool" where
  "is_method CallSayHello = True"
| "is_method (CallSay val) = True"
| "is_method CallStaticHello = True"
| "is_method _ = False"

text \<open>What a call wrote: the stream after it, without what the stream held before it.\<close>

definition emitted :: "ostream \<Rightarrow> ostream \<Rightarrow> string" where
  "emitted before after = drop (length before) after"

definition output_of :: "ostream \<Rightarrow> error + HelloClass \<times> ostream \<Rightarrow> error + string" where
  "output_of before r =
     (case r of Inl e \<Rightarrow> Inl e | Inr (this, after) \<Rightarrow> Inr (emitted before after))"

subsection \<open>Indeterminate values and object lifetime\<close>

text \<open>
  The calls above run on the storage as the machine has it. C++ says more: a member that
  no constructor assigns has an indeterminate value, and reading it is undefined
  behaviour; so is a call of a non-static member function or of the destructor on storage
  that holds no object. The checked semantics keeps, with the storage, the fields whose
  value is determinate and whether an object lives in it, and stops with a fault where
  the C++ rules leave the behaviour undefined.

  Before any construction, automatic or dynamic storage has no determinate field; static
  storage is zero-initialised and has them all. The destructor ends the object's life,
  after which no field is determinate.
\<close>

datatype field = One | Two | Three | ThisIsPrivate

fun field_value :: "field \<Rightarrow> HelloClass \<Rightarrow> nat" where
  "field_value One h = unat (one h)"
| "field_value Two h = unat (two h)"
| "field_value Three h = unat (three h)"
| "field_value ThisIsPrivate h = unat (thisIsPrivate h)"

text \<open>The fields a call assigns, and the fields it reads, in the order of the source.\<close>

fun writes :: "call \<Rightarrow> field list" where
  "writes New0 = [One, Two, Three, ThisIsPrivate]"
| "writes (New2 a b) = [One, Two]"
| "writes (New3 a b c) = [One, Two, Three]"
| "writes _ = []"

fun reads :: "call \<Rightarrow> field list" where
  "reads CallSayHello = [One, Two, Three]"
| "reads _ = []"








section \<open>Properties\<close>

subsection \<open>Numbers and their text\<close>

lemmas show_defs =
  Let_def double_magnitude_def double_sign_def double_exponent_def double_fraction_def
  show_double_def show_g_def dexp_def dexp_up.simps dexp_down.simps round_half_even_def
  digits10.simps digit_char_def strip_zeros_def with_point_def show_exponent_def
  show_int_def

lemma double_of_int_3: "double_of_int 3 = 0x4008000000000000"
  by (simp add: double_of_int_def msb_index.simps Let_def)

lemma double_value_3: "double_value 0x4008000000000000 = Some 3"
  by (simp add: double_value_def double_magnitude_def double_sign_def
      double_exponent_def double_fraction_def Let_def)

lemma show_double_3: "show_double 0x4008000000000000 = ''3''"
  by (simp add: show_defs)

text \<open>The conversion at the ends of the \<open>int\<close> range, and at \<open>-1\<close>.\<close>

lemma double_of_int_examples:
  "double_of_int (- 1) = 0xBFF0000000000000"
  "double_of_int 2147483647 = 0x41DFFFFFFFC00000"
  "double_of_int (- 2147483648) = 0xC1E0000000000000"
  by (simp_all add: double_of_int_def msb_index.simps Let_def)

text \<open>
  The text of some doubles: 0.1, 2.5, 100000, 999999.5 (rounded up into exponent
  notation), 123456789, -1234.567, 0.00001, the zeros, an infinity and a NaN.
\<close>

lemma show_double_examples:
  "show_double 0x3FB999999999999A = ''0.1''"
  "show_double 0x4004000000000000 = ''2.5''"
  "show_double 0x40F86A0000000000 = ''100000''"
  "show_double 0x412E847F00000000 = ''1e+06''"
  "show_double 0x419D6F3454000000 = ''1.23457e+08''"
  "show_double 0xC0934A456D5CFAAD = ''-1234.57''"
  "show_double 0x3EE4F8B588E368F1 = ''1e-05''"
  "show_double 0 = ''0''"
  "show_double 0x8000000000000000 = ''-0''"
  "show_double 0x7FF0000000000000 = ''inf''"
  "show_double 0x7FF8000000000000 = ''nan''"
  by (simp_all add: show_defs)

lemma show_int_examples:
  "show_int 0 = ''0''"
  "show_int (- 1203) = ''-1203''"
  "show_int (sint (- 9223372036854775808 :: int64_t)) = ''-9223372036854775808''"
  "show_int (sint (4294967295 :: int32_t)) = ''-1''"
  by (simp_all add: show_int_def digits10.simps digit_char_def)

lemma show_int_1: "show_int 1 = ''1''"
  by (simp add: show_int_def digits10.simps digit_char_def)

lemma show_int_2: "show_int 2 = ''2''"
  by (simp add: show_int_def digits10.simps digit_char_def)

lemma SayHello_eq:
  "SayHello this cout =
     (this, cout @ ''Hello, from HelloClass with'' @ CHR 0x0A # ''one: '' @
        show_int (sint (one this)) @ '', two: '' @ show_int (sint (two this)) @
        '', and three: '' @ show_double (three this) @ [CHR 0x0A])"
  by (simp add: SayHello_def put_str_def put_int_def put_double_def endl_def)

lemma takeWhile_cstr:
  assumes "CHR 0x00 \<notin> set t"
  shows "takeWhile (\<lambda>c. c \<noteq> CHR 0x00) (t @ CHR 0x00 # rest) = t"
  using assms by (induction t) auto

lemma Say_cstr:
  assumes "CHR 0x00 \<notin> set t"
  shows "Say this (Some (t @ CHR 0x00 # rest)) cout = Inr (this, cout @ t @ [CHR 0x0A])"
  using assms by (simp add: Say_def put_cstr_def endl_def takeWhile_cstr)

lemma Say_result:
  "Say this val cout = Inr (this', cout') \<Longrightarrow> this' = this"
  by (auto simp: Say_def split: sum.splits)

lemma Say_valid:
  "valid_cstr val \<Longrightarrow> \<exists>cout'. Say this val cout = Inr (this, cout')"
  by (auto simp: Say_def put_cstr_def valid_cstr_def split: option.splits)

lemma exec_method_fields:
  assumes "is_method c" and "exec c (this, cout) = Inr (this', cout')"
  shows "this' = this"
  using assms by (cases c) (auto simp: SayHello_eq dest: Say_result)

lemma exec_method_valid:
  assumes "is_method c" and "valid_call c"
  shows "\<exists>cout'. exec c (this, cout) = Inr (this, cout')"
  using assms by (cases c) (auto simp: SayHello_eq intro: Say_valid)

lemma run_methods_fields:
  assumes "list_all is_method cs" and "run cs (this, cout) = Inr (this', cout')"
  shows "this' = this"
  using assms
proof (induction cs arbitrary: cout)
  case Nil
  then show ?case by simp
next
  case (Cons c cs)
  from Cons.prems obtain s where s: "exec c (this, cout) = Inr s" and r: "run cs s = Inr (this', cout')"
    by (auto split: sum.splits)
  obtain this1 cout1 where s1: "s = (this1, cout1)"
    by (cases s)
  from Cons.prems(1) s s1 have "this1 = this"
    by (auto dest: exec_method_fields)
  with Cons.IH [of cout1] Cons.prems(1) r s1 show ?case
    by simp
qed

lemma run_methods_valid:
  assumes "list_all is_method cs" and "list_all valid_call cs"
  shows "\<exists>cout'. run cs (this, cout) = Inr (this, cout')"
  using assms
proof (induction cs arbitrary: cout)
  case Nil
  then show ?case by simp
next
  case (Cons c cs)
  from Cons.prems obtain cout1 where "exec c (this, cout) = Inr (this, cout1)"
    using exec_method_valid [of c this cout] by auto
  moreover from Cons.prems obtain cout2 where "run cs (this, cout1) = Inr (this, cout2)"
    using Cons.IH [of cout1] by auto
  ultimately show ?case
    by simp
qed

lemma exec_valid:
  assumes "valid_call c"
  shows "\<exists>s'. exec c s = Inr s'"
proof (cases s)
  case (Pair this cout)
  show ?thesis
  proof (cases c)
    case (CallSay val)
    with assms have "valid_cstr val"
      by simp
    then obtain cout' where "Say this val cout = Inr (this, cout')"
      using Say_valid by blast
    with CallSay Pair show ?thesis
      by simp
  qed (simp_all add: Pair HelloClass_dtor_def SayHello_eq)
qed

subsection \<open>The fields a call assigns and reads\<close>

text \<open>
  \<open>writes\<close> and \<open>reads\<close> are what the bodies do: a field outside \<open>writes c\<close> keeps
  what the storage held, a field in \<open>writes c\<close> gets a value that does not depend on
  the storage, and the output of a call is the same on two objects that agree on
  \<open>reads c\<close>. \<open>SayHello\<close> does read each of \<open>one\<close>, \<open>two\<close> and \<open>three\<close>: changing one
  of them changes its output.
\<close>

lemma writes_frame:
  assumes "exec c (this, cout) = Inr (this', cout')" and "f \<notin> set (writes c)"
  shows "field_value f this' = field_value f this"
proof (cases c)
  case (CallSay val)
  with assms(1) have "this' = this"
    by (auto dest: Say_result)
  then show ?thesis
    by simp
next
  case New0
  with assms show ?thesis
    by (cases f) (auto simp: HelloClass_ctor0_def)
next
  case (New2 a b)
  with assms show ?thesis
    by (cases f) (auto simp: HelloClass_ctor2_def)
next
  case (New3 a b d)
  with assms show ?thesis
    by (cases f) (auto simp: HelloClass_ctor3_def)
qed (use assms in \<open>auto simp: HelloClass_dtor_def SayHello_eq\<close>)

lemma writes_determined:
  assumes "exec c (this1, cout1) = Inr (this1', cout1')"
    and "exec c (this2, cout2) = Inr (this2', cout2')"
    and "f \<in> set (writes c)"
  shows "field_value f this1' = field_value f this2'"
proof (cases c)
  case New0
  with assms show ?thesis
    by (cases f) (auto simp: HelloClass_ctor0_def)
next
  case (New2 a b)
  with assms show ?thesis
    by (cases f) (auto simp: HelloClass_ctor2_def)
next
  case (New3 a b d)
  with assms show ?thesis
    by (cases f) (auto simp: HelloClass_ctor3_def)
qed (use assms in auto)

lemma reads_determine_output:
  assumes "\<forall>f \<in> set (reads c). field_value f this1 = field_value f this2"
  shows "output_of cout1 (exec c (this1, cout1)) = output_of cout2 (exec c (this2, cout2))"
proof (cases c)
  case CallSayHello
  with assms have "one this1 = one this2" "two this1 = two this2" "three this1 = three this2"
    by (simp_all add: word_unat_eq_iff)
  with CallSayHello show ?thesis
    by (simp add: output_of_def emitted_def SayHello_eq)
next
  case (CallSay val)
  then show ?thesis
    by (simp add: output_of_def Say_def put_cstr_def endl_def emitted_def split: option.splits)
qed (simp_all add: output_of_def emitted_def HelloClass_dtor_def StaticHello_def put_str_def
      endl_def)

lemma SayHello_reads_each_field:
  "snd (SayHello \<lparr>one = 1, two = 2, three = 0x4008000000000000, thisIsPrivate = 4\<rparr> []) \<noteq>
   snd (SayHello \<lparr>one = 2, two = 2, three = 0x4008000000000000, thisIsPrivate = 4\<rparr> [])"
  "snd (SayHello \<lparr>one = 1, two = 2, three = 0x4008000000000000, thisIsPrivate = 4\<rparr> []) \<noteq>
   snd (SayHello \<lparr>one = 1, two = 1, three = 0x4008000000000000, thisIsPrivate = 4\<rparr> [])"
  "snd (SayHello \<lparr>one = 1, two = 2, three = 0x4008000000000000, thisIsPrivate = 4\<rparr> []) \<noteq>
   snd (SayHello \<lparr>one = 1, two = 2, three = 0, thisIsPrivate = 4\<rparr> [])"
  by (simp_all add: SayHello_eq show_double_3 show_int_1 show_int_2 show_double_examples)

subsection \<open>Runs of the checked semantics\<close>







subsection \<open>Construction\<close>

text \<open>
  Claim C1. Whatever the storage held before, the object built by the constructor without
  arguments has \<open>one = 1\<close>, \<open>two = 2\<close>, \<open>three = 3\<close> (the double of value 3, with
  encoding \<open>0x4008000000000000\<close>) and the private field 4.
\<close>

theorem HelloClass_ctor0_fields:
  "HelloClass_ctor0 this =
     \<lparr>one = 1, two = 2, three = 0x4008000000000000, thisIsPrivate = 4\<rparr>
   \<and> double_value (three (HelloClass_ctor0 this)) = Some 3"
  by (simp add: HelloClass_ctor0_def double_of_int_3 double_value_3)

text \<open>
  Claim C2. The constructor with two arguments sets \<open>one\<close> and \<open>two\<close> to its arguments
  and assigns neither \<open>three\<close> nor the private field, which keep what the storage held.
  So \<open>three\<close> has no guaranteed value afterwards: for every value \<open>v\<close>, 3 included, some
  construction ends with \<open>three\<close> different from \<open>v\<close>.
\<close>

theorem HelloClass_ctor2_fields:
  "one (HelloClass_ctor2 this a b) = a
   \<and> two (HelloClass_ctor2 this a b) = b
   \<and> three (HelloClass_ctor2 this a b) = three this
   \<and> thisIsPrivate (HelloClass_ctor2 this a b) = thisIsPrivate this
   \<and> (\<forall>v. \<exists>raw. three (HelloClass_ctor2 raw a b) \<noteq> v)"
proof -
  have "\<exists>raw. three (HelloClass_ctor2 raw a b) \<noteq> v" for v
  proof
    show "three (HelloClass_ctor2 \<lparr>one = 0, two = 0, three = v + 1, thisIsPrivate = 0\<rparr> a b) \<noteq> v"
      by (simp add: HelloClass_ctor2_def)
  qed
  then show ?thesis
    by (simp add: HelloClass_ctor2_def)
qed

text \<open>
  Claim C4. The constructor with three arguments sets \<open>one\<close>, \<open>two\<close> and \<open>three\<close> to
  its arguments and does not assign the private field, which keeps what the storage held.
\<close>

theorem HelloClass_ctor3_fields:
  "HelloClass_ctor3 this a b c = \<lparr>one = a, two = b, three = c, thisIsPrivate = thisIsPrivate this\<rparr>"
  by (simp add: HelloClass_ctor3_def)

subsection \<open>Output of the methods\<close>

text \<open>
  Claim C3, as amended. On the object with \<open>one = 1\<close>, \<open>two = 2\<close> and \<open>three = 3.0\<close>,
  \<open>SayHello\<close> appends to the stream exactly \<open>Hello, from HelloClass with\<close>, a newline,
  \<open>one: 1, two: 2, and three: 3\<close> and a final newline (the \<open>std::endl\<close> that ends the
  statement), and leaves the object as it is. The double 3.0 is written as \<open>3\<close>.
\<close>

theorem SayHello_1_2_3:
  "SayHello \<lparr>one = 1, two = 2, three = double_of_int 3, thisIsPrivate = p\<rparr> cout =
     (\<lparr>one = 1, two = 2, three = double_of_int 3, thisIsPrivate = p\<rparr>,
      cout @ ''Hello, from HelloClass with'' @ CHR 0x0A # ''one: 1, two: 2, and three: 3'' @
        [CHR 0x0A])"
  by (simp add: SayHello_eq double_of_int_3 show_double_3 show_int_1 show_int_2)

text \<open>
  Claim C3 as stated, with nothing after \<open>three: 3\<close>, fails: on an empty stream the
  output of \<open>SayHello\<close> is not the text without the final newline.
\<close>

theorem SayHello_1_2_3_counterexample:
  "snd (SayHello \<lparr>one = 1, two = 2, three = double_of_int 3, thisIsPrivate = 4\<rparr> []) \<noteq>
     ''Hello, from HelloClass with'' @ CHR 0x0A # ''one: 1, two: 2, and three: 3''"
  by (simp add: SayHello_eq double_of_int_3 show_double_3 show_int_1 show_int_2)

text \<open>
  Claim C5. \<open>StaticHello\<close> takes no object, and appends to the stream exactly
  \<open>Hello, from HelloClass::StaticHello!\<close> and a newline.
\<close>

theorem StaticHello_output:
  "StaticHello cout = cout @ ''Hello, from HelloClass::StaticHello!'' @ [CHR 0x0A]"
  by (simp add: StaticHello_def put_str_def endl_def)

text \<open>
  Claim C6. For a text \<open>t\<close> passed by a non-null pointer (as a C string: \<open>t\<close> holds no NUL
  and a NUL follows it), \<open>Say\<close> on any object succeeds and appends to the stream exactly
  \<open>t\<close> and a newline; so does \<open>Say("test")\<close> with \<open>test\<close> and a newline.
\<close>

theorem Say_output:
  "(CHR 0x00 \<notin> set t \<longrightarrow>
      Say this (Some (t @ CHR 0x00 # rest)) cout = Inr (this, cout @ t @ [CHR 0x0A]))
   \<and> Say this (Some (''test'' @ [CHR 0x00])) cout = Inr (this, cout @ ''test'' @ [CHR 0x0A])"
proof -
  have "CHR 0x00 \<notin> set ''test''"
    by simp
  then have "Say this (Some (''test'' @ [CHR 0x00])) cout = Inr (this, cout @ ''test'' @ [CHR 0x0A])"
    by (rule Say_cstr)
  then show ?thesis
    by (simp add: Say_cstr)
qed

theorem Say_output_witness:
  "CHR 0x00 \<notin> set ''hello, world''
   \<and> Say \<lparr>one = 7, two = 8, three = 0, thisIsPrivate = 9\<rparr>
        (Some (''hello, world'' @ CHR 0x00 # ''tail'')) ''&''
      = Inr (\<lparr>one = 7, two = 8, three = 0, thisIsPrivate = 9\<rparr>,
             ''&hello, world'' @ [CHR 0x0A])"
  using Say_output [of "''hello, world''" "\<lparr>one = 7, two = 8, three = 0, thisIsPrivate = 9\<rparr>"
      "''tail''" "''&''"]
  by simp

text \<open>
  Claim C7. Two calls of \<open>SayHello\<close> in a row on one object write the same text: each
  call appends its text to the stream, and the text of the second call is the text of the
  first. The text depends on the object alone, not on what the stream held before.
\<close>

theorem SayHello_twice:
  "(let (this1, cout1) = SayHello this cout; (this2, cout2) = SayHello this1 cout1
    in cout1 = cout @ emitted cout cout1 \<and> cout2 = cout1 @ emitted cout1 cout2
       \<and> emitted cout1 cout2 = emitted cout cout1)
   \<and> emitted c1 (snd (SayHello this c1)) = emitted c2 (snd (SayHello this c2))"
  by (simp add: SayHello_eq emitted_def)

text \<open>
  Claim C10. What \<open>Say\<close> writes does not depend on the object: on any two objects and
  any two streams, \<open>Say\<close> with the same pointer writes the same text (or fails with the
  same error when the pointer is not a valid text reference).
\<close>

theorem Say_output_independent_of_fields:
  "output_of c1 (Say h1 val c1) = output_of c2 (Say h2 val c2)"
  by (simp add: output_of_def Say_def put_cstr_def endl_def emitted_def split: option.splits)

subsection \<open>Totality and frame\<close>




text \<open>
  Claim C9. No method assigns a field: after any run of calls of \<open>SayHello\<close>, \<open>Say\<close> and
  \<open>StaticHello\<close> that completes, the object is the one the run started with, and a run
  whose calls of \<open>Say\<close> all have a valid text reference does complete. The destructor
  changes neither the object nor the stream.
\<close>

theorem methods_preserve_fields:
  assumes "list_all is_method cs"
  shows "(\<forall>this' cout'. run cs (this, cout) = Inr (this', cout') \<longrightarrow> this' = this)
         \<and> (list_all valid_call cs \<longrightarrow> (\<exists>cout'. run cs (this, cout) = Inr (this, cout')))
         \<and> HelloClass_dtor this cout = (this, cout)"
  using assms run_methods_fields [of cs this cout] run_methods_valid [of cs this cout]
  by (simp add: HelloClass_dtor_def)

theorem methods_preserve_fields_witness:
  "list_all is_method [CallSayHello, CallSay (Some (''hi'' @ [CHR 0x00])), CallStaticHello]
   \<and> list_all valid_call [CallSayHello, CallSay (Some (''hi'' @ [CHR 0x00])), CallStaticHello]
   \<and> (\<exists>cout'. run [CallSayHello, CallSay (Some (''hi'' @ [CHR 0x00])), CallStaticHello]
                  (\<lparr>one = 5, two = 6, three = 0, thisIsPrivate = 7\<rparr>, [])
                = Inr (\<lparr>one = 5, two = 6, three = 0, thisIsPrivate = 7\<rparr>, cout'))"
  using methods_preserve_fields
    [of "[CallSayHello, CallSay (Some (''hi'' @ [CHR 0x00])), CallStaticHello]"
        "\<lparr>one = 5, two = 6, three = 0, thisIsPrivate = 7\<rparr>" "[]"]
  by (simp add: valid_cstr_def)

end
